theory Spec2Isabelle
  imports Main
begin

section \<open>Python values the calendar platform computes with\<close>

text \<open>
  The module \<^verbatim>\<open>custom_components/grocy/calendar.py\<close> turns items of the Grocy service
  into calendar events. It computes with Python's \<^verbatim>\<open>datetime.date\<close>,
  \<^verbatim>\<open>datetime.datetime\<close> and \<^verbatim>\<open>datetime.timedelta\<close>, all of which are bounded:
  arithmetic that leaves the years 1 to 9999 raises \<^verbatim>\<open>OverflowError\<close>. The only other
  exception the module raises is its own \<^verbatim>\<open>NotImplementedError\<close>, carrying a message.
\<close>

datatype error = NotImplementedError string | OverflowError

text \<open>
  A \<^verbatim>\<open>tzinfo\<close> object is identified by the key of its zone. Python compares, adds and
  subtracts on the wall clock of a datetime and never consults the zone's rules for the
  operations used here, so the key is all the model keeps.
\<close>

type_synonym tzinfo = string

text \<open>
  A \<^verbatim>\<open>datetime.date\<close> is its proleptic Gregorian ordinal (\<^verbatim>\<open>date.toordinal()\<close>):
  day 1 is 0001-01-01 and day 3652059 is 9999-12-31, \<^verbatim>\<open>date.max\<close>.
\<close>

datatype date = fromordinal (toordinal: int)

definition MAXORDINAL :: int where
  "MAXORDINAL = 3652059"

definition valid_date :: "date \<Rightarrow> bool" where
  "valid_date d = (1 \<le> toordinal d \<and> toordinal d \<le> MAXORDINAL)"

text \<open>
  A \<^verbatim>\<open>datetime.datetime\<close> is the number of microseconds its wall-clock reading lies
  after 0001-01-01T00:00:00, together with its optional \<^verbatim>\<open>tzinfo\<close> attribute (absent
  for a naive datetime). The \<^verbatim>\<open>fold\<close> attribute is left out: it plays no part in
  arithmetic or in comparisons of datetimes that share their \<^verbatim>\<open>tzinfo\<close>.
\<close>

record datetime =
  micros :: int
  tzinfo :: "tzinfo option"

definition US_PER_HOUR :: int where
  "US_PER_HOUR = 3600000000"

definition US_PER_DAY :: int where
  "US_PER_DAY = 86400000000"

definition valid_datetime :: "datetime \<Rightarrow> bool" where
  "valid_datetime dt = (0 \<le> micros dt \<and> micros dt < MAXORDINAL * US_PER_DAY)"

text \<open>
  A \<^verbatim>\<open>datetime.timedelta\<close> is its total length in microseconds; its \<^verbatim>\<open>days\<close>
  attribute is the floor of that length in days.
\<close>

type_synonym timedelta = int

definition timedelta_hours :: "int \<Rightarrow> timedelta" where
  "timedelta_hours h = h * US_PER_HOUR"

definition timedelta_days :: "int \<Rightarrow> timedelta" where
  "timedelta_days d = d * US_PER_DAY"

definition days :: "timedelta \<Rightarrow> int" where
  "days td = td div US_PER_DAY"

text \<open>
  \<^verbatim>\<open>date.__add__(timedelta)\<close>: the ordinal moves by the \<^verbatim>\<open>days\<close> of the timedelta
  and the result must be an ordinal of a date, else \<^verbatim>\<open>OverflowError\<close>.
\<close>

definition date_add :: "date \<Rightarrow> timedelta \<Rightarrow> error + date" where
  "date_add d td =
     (let o' = toordinal d + days td
      in if 0 < o' \<and> o' \<le> MAXORDINAL then Inr (fromordinal o') else Inl OverflowError)"

text \<open>
  \<^verbatim>\<open>datetime.__sub__(timedelta)\<close>: the wall-clock reading moves back, the
  \<^verbatim>\<open>tzinfo\<close> attribute is kept, and the result must lie between \<^verbatim>\<open>datetime.min\<close>
  and \<^verbatim>\<open>datetime.max\<close>, else \<^verbatim>\<open>OverflowError\<close>.
\<close>

definition datetime_sub :: "datetime \<Rightarrow> timedelta \<Rightarrow> error + datetime" where
  "datetime_sub dt td =
     (let us = micros dt - td
      in if 0 \<le> us \<and> us < MAXORDINAL * US_PER_DAY then Inr (dt\<lparr>micros := us\<rparr>)
         else Inl OverflowError)"

text \<open>\<^verbatim>\<open>datetime.replace(tzinfo=tz)\<close> attaches a zone without moving the wall clock.\<close>

definition replace_tzinfo :: "datetime \<Rightarrow> tzinfo \<Rightarrow> datetime" where
  "replace_tzinfo dt tz = dt\<lparr>tzinfo := Some tz\<rparr>"

text \<open>\<^verbatim>\<open>datetime.date()\<close>: the day of the wall-clock reading.\<close>

definition date_of :: "datetime \<Rightarrow> date" where
  "date_of dt = fromordinal (micros dt div US_PER_DAY + 1)"

text \<open>
  The start and end of a calendar event are typed \<^verbatim>\<open>datetime.date | datetime.datetime\<close>.
\<close>

datatype date_or_datetime = Date date | Datetime datetime

text \<open>
  Python's \<^verbatim>\<open>a < b\<close> on such values, where the model can decide it: two dates compare
  by ordinal, two datetimes with the same \<^verbatim>\<open>tzinfo\<close> attribute compare by wall
  clock. Every other combination either raises \<^verbatim>\<open>TypeError\<close> or needs the zones'
  offsets, and is \<open>None\<close> here.
\<close>

fun less_than :: "date_or_datetime \<Rightarrow> date_or_datetime \<Rightarrow> bool option" where
  "less_than (Date a) (Date b) = Some (toordinal a < toordinal b)"
| "less_than (Datetime a) (Datetime b) =
     (if tzinfo a = tzinfo b then Some (micros a < micros b) else None)"
| "less_than _ _ = None"

text \<open>\<^verbatim>\<open>int.__str__\<close>: decimal digits, with a minus sign for a negative number.\<close>

definition digit_char :: "nat \<Rightarrow> char" where
  "digit_char d = ''0123456789'' ! d"

function str_nat :: "nat \<Rightarrow> string" where
  "str_nat n = (if n < 10 then [digit_char n] else str_nat (n div 10) @ [digit_char (n mod 10)])"
  by pat_completeness auto
termination
  by (relation "measure (\<lambda>n. n)") auto

declare str_nat.simps [simp del]

definition str :: "int \<Rightarrow> string" where
  "str i = (if i < 0 then CHR ''-'' # str_nat (nat (- i)) else str_nat (nat i))"

text \<open>\<^verbatim>\<open>x or None\<close> on an optional string: the empty string is falsy.\<close>

definition or_None :: "string option \<Rightarrow> string option" where
  "or_None x = (case x of None \<Rightarrow> None | Some s \<Rightarrow> if s = [] then None else Some s)"


section \<open>The items of the Grocy service\<close>

text \<open>
  The item classes come from the \<^verbatim>\<open>pygrocy\<close> library; each record holds the attributes
  the event constructor reads, with the optionality the specification's data model gives
  them.
\<close>

record chore =
  chore_id :: int
  chore_name :: string
  chore_description :: "string option"
  next_estimated_execution_time :: "datetime option"

record battery =
  battery_id :: int
  battery_name :: string
  battery_description :: "string option"
  next_estimated_charge_time :: "datetime option"

record product =
  product_id :: int
  product_name :: string
  best_before_date :: "date option"

record task =
  task_id :: int
  task_name :: string
  task_description :: "string option"
  due_date :: "date option"

record recipe =
  recipe_name :: string
  recipe_description :: "string option"

record meal_plan_item =
  meal_plan_id :: int
  day :: "date option"
  recipe :: recipe

text \<open>
  Modelled from the spec: the class \<^verbatim>\<open>MealPlanItemWrapper\<close> of the module
  \<^verbatim>\<open>helpers\<close>, of which the constructor reads \<^verbatim>\<open>item.meal_plan.id\<close>,
  \<^verbatim>\<open>item.meal_plan.day\<close> and \<^verbatim>\<open>item.meal_plan.recipe\<close>: an entry that wraps a day
  and a recipe (name, description), with an id.
\<close>

record meal_plan_item_wrapper =
  meal_plan :: meal_plan_item

text \<open>
  What can be passed as \<^verbatim>\<open>item\<close>: an instance of one of the five classes the
  constructor tests for, or an object of any other class, of which only the qualified name
  of its type matters. Python's \<^verbatim>\<open>None\<close> is the \<open>None\<close> of \<open>item option\<close>.
\<close>

datatype item =
    Chore chore
  | Battery battery
  | MealPlanItemWrapper meal_plan_item_wrapper
  | Product product
  | Task task
  | Other string

text \<open>\<^verbatim>\<open>str(type(item))\<close>, as the f-string of the error message formats it.\<close>

fun type_name :: "item option \<Rightarrow> string" where
  "type_name None = ''NoneType''"
| "type_name (Some (Chore _)) = ''pygrocy.data_models.chore.Chore''"
| "type_name (Some (Battery _)) = ''pygrocy.data_models.battery.Battery''"
| "type_name (Some (MealPlanItemWrapper _)) = ''custom_components.grocy.helpers.MealPlanItemWrapper''"
| "type_name (Some (Product _)) = ''pygrocy.data_models.product.Product''"
| "type_name (Some (Task _)) = ''pygrocy.data_models.task.Task''"
| "type_name (Some (Other n)) = n"

definition str_type :: "item option \<Rightarrow> string" where
  "str_type item = ''<class '' @ [CHR 0x27] @ type_name item @ [CHR 0x27] @ ''>''"


section \<open>The event constructor\<close>

text \<open>
  The fields of the host platform's \<^verbatim>\<open>CalendarEvent\<close> that the constructor passes to
  \<^verbatim>\<open>super().__init__\<close>. The base class belongs to the host platform and is not part of
  the module.
\<close>

record CalendarEvent =
  uid :: string
  summary :: string
  start :: date_or_datetime
  end' :: date_or_datetime
  description :: "string option"
  location :: "string option"
  recurrence_id :: "string option"
  rrule :: "string option"

text \<open>
  \<^verbatim>\<open>GrocyCalendarEvent.__init__(item, key)\<close>. Two values come from the host platform and
  are parameters: \<open>DEFAULT_TIME_ZONE\<close>, the zone object the module imported, and \<open>now\<close>,
  what the call \<^verbatim>\<open>now()\<close> returns while this event is constructed. The branches are
  tried in the order of the \<^verbatim>\<open>isinstance\<close> chain; a date or datetime object is always
  truthy, so \<^verbatim>\<open>x if x else y\<close> on such a field tests for \<^verbatim>\<open>None\<close>.
\<close>

fun GrocyCalendarEvent :: "tzinfo \<Rightarrow> datetime \<Rightarrow> item option \<Rightarrow> string \<Rightarrow> error + CalendarEvent" where
  "GrocyCalendarEvent DEFAULT_TIME_ZONE now (Some (Chore item)) key =
     (let end_t = (case next_estimated_execution_time item of
                   Some t \<Rightarrow> replace_tzinfo t DEFAULT_TIME_ZONE
                 | None \<Rightarrow> now)
      in case datetime_sub end_t (timedelta_hours 1) of
           Inl err \<Rightarrow> Inl err
         | Inr start_t \<Rightarrow>
             Inr \<lparr>uid = str (chore_id item), summary = chore_name item,
                  start = Datetime start_t, end' = Datetime end_t,
                  description = or_None (chore_description item),
                  location = None, recurrence_id = None, rrule = None\<rparr>)"
| "GrocyCalendarEvent DEFAULT_TIME_ZONE now (Some (Battery item)) key =
     (let end_t = (case next_estimated_charge_time item of
                   Some t \<Rightarrow> replace_tzinfo t DEFAULT_TIME_ZONE
                 | None \<Rightarrow> now)
      in case datetime_sub end_t (timedelta_hours 1) of
           Inl err \<Rightarrow> Inl err
         | Inr start_t \<Rightarrow>
             Inr \<lparr>uid = str (battery_id item), summary = battery_name item,
                  start = Datetime start_t, end' = Datetime end_t,
                  description = or_None (battery_description item),
                  location = None, recurrence_id = None, rrule = None\<rparr>)"
| "GrocyCalendarEvent DEFAULT_TIME_ZONE now (Some (MealPlanItemWrapper item)) key =
     (let start_d = (case day (meal_plan item) of Some d \<Rightarrow> d | None \<Rightarrow> date_of now)
      in case date_add start_d (timedelta_days 1) of
           Inl err \<Rightarrow> Inl err
         | Inr end_d \<Rightarrow>
             Inr \<lparr>uid = str (meal_plan_id (meal_plan item)),
                  summary = recipe_name (recipe (meal_plan item)),
                  start = Date start_d, end' = Date end_d,
                  description = or_None (recipe_description (recipe (meal_plan item))),
                  location = None, recurrence_id = None, rrule = None\<rparr>)"
| "GrocyCalendarEvent DEFAULT_TIME_ZONE now (Some (Product item)) key =
     (let start_d = (case best_before_date item of Some d \<Rightarrow> d | None \<Rightarrow> date_of now)
      in case date_add start_d (timedelta_days 1) of
           Inl err \<Rightarrow> Inl err
         | Inr end_d \<Rightarrow>
             Inr \<lparr>uid = str (product_id item), summary = product_name item,
                  start = Date start_d, end' = Date end_d,
                  description = None,
                  location = None, recurrence_id = None, rrule = None\<rparr>)"
| "GrocyCalendarEvent DEFAULT_TIME_ZONE now (Some (Task item)) key =
     (let start_d = (case due_date item of Some d \<Rightarrow> d | None \<Rightarrow> date_of now)
      in case date_add start_d (timedelta_days 1) of
           Inl err \<Rightarrow> Inl err
         | Inr end_d \<Rightarrow>
             Inr \<lparr>uid = str (task_id item), summary = task_name item,
                  start = Date start_d, end' = Date end_d,
                  description = or_None (task_description item),
                  location = None, recurrence_id = None, rrule = None\<rparr>)"
| "GrocyCalendarEvent DEFAULT_TIME_ZONE now item key =
     Inl (NotImplementedError (key @ '' => '' @ str_type item))"


section \<open>The calendar entity\<close>

text \<open>
  Modelled from the spec: the coordinator's cache, \<^verbatim>\<open>coordinator.data\<close>, of the module
  \<^verbatim>\<open>coordinator\<close>. Indexing it with a category key gives the cached list of that
  category or \<^verbatim>\<open>None\<close> (\<^verbatim>\<open>coordinator.data[categoryKey] -> list<variant> | none\<close>);
  an entry of a list may itself be \<^verbatim>\<open>None\<close>.
\<close>

type_synonym GrocyCoordinatorData = "string \<Rightarrow> item option list option"

text \<open>
  Of the entity, the module reads \<^verbatim>\<open>self.coordinator.data\<close> and
  \<^verbatim>\<open>self.entity_description.key\<close>.
\<close>

record GrocyCalendarEntity =
  coordinator_data :: GrocyCoordinatorData
  entity_description_key :: string

text \<open>The property \<^verbatim>\<open>event\<close>: its body is \<^verbatim>\<open>return None\<close>; the rest is commented out.\<close>

definition event :: "GrocyCalendarEntity \<Rightarrow> CalendarEvent option" where
  "event self = None"

text \<open>
  A list comprehension whose element expression may raise: the elements are built from
  left to right and the first exception ends the comprehension.
\<close>

fun raise_first :: "(error + 'a) list \<Rightarrow> error + 'a list" where
  "raise_first [] = Inr []"
| "raise_first (Inl err # rest) = Inl err"
| "raise_first (Inr v # rest) =
     (case raise_first rest of Inl err \<Rightarrow> Inl err | Inr vs \<Rightarrow> Inr (v # vs))"

text \<open>
  \<^verbatim>\<open>async_get_events(hass, start_date, end_date)\<close>; the argument \<^verbatim>\<open>hass\<close> is never
  read and is left out. Every event constructed may read the clock, so \<open>now i\<close> is what
  \<^verbatim>\<open>now()\<close> returns while the item at position \<open>i\<close> of the cached list is mapped. A
  list is truthy when it is not empty. The declared result type is
  \<^verbatim>\<open>list[CalendarEvent] | None\<close>.
\<close>

definition async_get_events ::
  "tzinfo \<Rightarrow> (nat \<Rightarrow> datetime) \<Rightarrow> GrocyCalendarEntity \<Rightarrow> datetime \<Rightarrow> datetime
     \<Rightarrow> error + CalendarEvent list option" where
  "async_get_events DEFAULT_TIME_ZONE now self start_date end_date =
     (let entity_data = coordinator_data self (entity_description_key self)
      in case entity_data of
           None \<Rightarrow> Inr (Some [])
         | Some items \<Rightarrow>
             if items \<noteq> []
             then map_sum id Some
                    (raise_first
                       [GrocyCalendarEvent DEFAULT_TIME_ZONE (now i) item (entity_description_key self).
                          (i, item) \<leftarrow> enumerate 0 items, item \<noteq> None])
             else Inr (Some []))"


section \<open>Notions of the specification\<close>

text \<open>The five supported variant kinds: what the \<^verbatim>\<open>isinstance\<close> chain accepts.\<close>

fun supported :: "item option \<Rightarrow> bool" where
  "supported None = False"
| "supported (Some (Other _)) = False"
| "supported (Some _) = True"

text \<open>The id of the source item: the meal plan's id for a meal-plan entry.\<close>

fun source_id :: "item \<Rightarrow> int option" where
  "source_id (Chore c) = Some (chore_id c)"
| "source_id (Battery b) = Some (battery_id b)"
| "source_id (MealPlanItemWrapper w) = Some (meal_plan_id (meal_plan w))"
| "source_id (Product p) = Some (product_id p)"
| "source_id (Task t) = Some (task_id t)"
| "source_id (Other _) = None"

text \<open>
  The due point of an item leaves room for the synthesized window: a timestamp is a
  datetime not earlier than 0001-01-01T01:00:00, a date is a date before 9999-12-31.
  Where the item's field is absent the clock reading takes its place.
\<close>

definition timestamp_in_range :: "datetime \<Rightarrow> bool" where
  "timestamp_in_range t = (valid_datetime t \<and> US_PER_HOUR \<le> micros t)"

definition date_in_range :: "date \<Rightarrow> bool" where
  "date_in_range d = (valid_date d \<and> toordinal d < MAXORDINAL)"

fun window_in_range :: "datetime \<Rightarrow> item \<Rightarrow> bool" where
  "window_in_range now (Chore c) =
     timestamp_in_range (case next_estimated_execution_time c of None \<Rightarrow> now | Some t \<Rightarrow> t)"
| "window_in_range now (Battery b) =
     timestamp_in_range (case next_estimated_charge_time b of None \<Rightarrow> now | Some t \<Rightarrow> t)"
| "window_in_range now (MealPlanItemWrapper w) =
     date_in_range (case day (meal_plan w) of None \<Rightarrow> date_of now | Some d \<Rightarrow> d)"
| "window_in_range now (Product p) =
     date_in_range (case best_before_date p of None \<Rightarrow> date_of now | Some d \<Rightarrow> d)"
| "window_in_range now (Task t) =
     date_in_range (case due_date t of None \<Rightarrow> date_of now | Some d \<Rightarrow> d)"
| "window_in_range now (Other _) = True"

text \<open>
  \<open>eventsInRange\<close> as the specification words it: an absent or empty cached list gives
  the empty list; otherwise every non-null item is mapped through the event mapper and
  the results are returned in the order of the cached list. A failing mapping is not
  caught and aborts the whole batch.
\<close>

fun map_non_null ::
  "tzinfo \<Rightarrow> (nat \<Rightarrow> datetime) \<Rightarrow> string \<Rightarrow> nat \<Rightarrow> item option list \<Rightarrow> error + CalendarEvent list" where
  "map_non_null tz now key i [] = Inr []"
| "map_non_null tz now key i (None # rest) = map_non_null tz now key (Suc i) rest"
| "map_non_null tz now key i (Some x # rest) =
     (case GrocyCalendarEvent tz (now i) (Some x) key of
        Inl err \<Rightarrow> Inl err
      | Inr ev \<Rightarrow>
          (case map_non_null tz now key (Suc i) rest of
             Inl err \<Rightarrow> Inl err
           | Inr evs \<Rightarrow> Inr (ev # evs)))"

definition eventsInRange ::
  "tzinfo \<Rightarrow> (nat \<Rightarrow> datetime) \<Rightarrow> GrocyCoordinatorData \<Rightarrow> string \<Rightarrow> error + CalendarEvent list option" where
  "eventsInRange tz now cache key =
     (case cache key of
        None \<Rightarrow> Inr (Some [])
      | Some items \<Rightarrow> map_sum id Some (map_non_null tz now key 0 items))"


section \<open>Example values\<close>

text \<open>
  A clock reading on 2022-09-28 at 22:13:20 (day 738426), a clock reading at noon of
  9999-12-31 (day 3652059), items of each kind, among them
  items at the two ends of Python's calendar (a best-before date and a plan day of
  9999-12-31, a next-execution time of 0001-01-01T00:00:00), and a cache.
\<close>

definition example_now :: datetime where
  "example_now = \<lparr>micros = 63800000000000000, tzinfo = Some ''Europe/Berlin''\<rparr>"

definition example_last_day_now :: datetime where
  "example_last_day_now = \<lparr>micros = 315537854400000000, tzinfo = Some ''Europe/Berlin''\<rparr>"

definition example_product :: product where
  "example_product =
     \<lparr>product_id = 7, product_name = ''Salt'', best_before_date = Some (fromordinal 3652059)\<rparr>"

definition example_chore :: chore where
  "example_chore =
     \<lparr>chore_id = 12, chore_name = ''Sweep the floor'', chore_description = Some [],
      next_estimated_execution_time = Some \<lparr>micros = 63800006400000000, tzinfo = None\<rparr>\<rparr>"

definition example_battery :: battery where
  "example_battery =
     \<lparr>battery_id = 4, battery_name = ''Smoke detector'', battery_description = None,
      next_estimated_charge_time = None\<rparr>"

definition example_meal :: meal_plan_item_wrapper where
  "example_meal =
     \<lparr>meal_plan = \<lparr>meal_plan_id = 5, day = Some (fromordinal 738427),
                   recipe = \<lparr>recipe_name = ''Soup'', recipe_description = Some []\<rparr>\<rparr>\<rparr>"

definition example_undated_product :: product where
  "example_undated_product = \<lparr>product_id = 8, product_name = ''Rice'', best_before_date = None\<rparr>"

definition example_task :: task where
  "example_task =
     \<lparr>task_id = 3, task_name = ''Groceries'', task_description = Some ''buy milk'',
      due_date = None\<rparr>"

definition example_cache :: GrocyCoordinatorData where
  "example_cache key =
     (if key = ''tasks'' then Some [None, Some (Task example_task), Some (Other ''int'')]
      else if key = ''expiring_products'' then Some [Some (Product example_undated_product)]
      else None)"

definition example_entity :: GrocyCalendarEntity where
  "example_entity = \<lparr>coordinator_data = example_cache, entity_description_key = ''chores''\<rparr>"

definition example_tasks_entity :: GrocyCalendarEntity where
  "example_tasks_entity = \<lparr>coordinator_data = example_cache, entity_description_key = ''tasks''\<rparr>"

definition example_products_entity :: GrocyCalendarEntity where
  "example_products_entity =
     \<lparr>coordinator_data = example_cache, entity_description_key = ''expiring_products''\<rparr>"

definition example_first_hour_chore :: chore where
  "example_first_hour_chore =
     \<lparr>chore_id = 13, chore_name = ''Water the plants'', chore_description = None,
      next_estimated_execution_time = Some \<lparr>micros = 0, tzinfo = None\<rparr>\<rparr>"

definition example_last_day_meal :: meal_plan_item_wrapper where
  "example_last_day_meal =
     \<lparr>meal_plan = \<lparr>meal_plan_id = 6, day = Some (fromordinal 3652059),
                   recipe = \<lparr>recipe_name = ''Stew'', recipe_description = None\<rparr>\<rparr>\<rparr>"



section \<open>Date and time arithmetic\<close>

lemma date_add_one_day:
  "date_in_range d \<Longrightarrow> date_add d (timedelta_days 1) = Inr (fromordinal (toordinal d + 1))"
  by (simp add: date_in_range_def valid_date_def date_add_def timedelta_days_def days_def
      US_PER_DAY_def)

lemma datetime_sub_one_hour:
  "timestamp_in_range t \<Longrightarrow>
     datetime_sub t (timedelta_hours 1) = Inr (t\<lparr>micros := micros t - US_PER_HOUR\<rparr>)"
  by (simp add: timestamp_in_range_def valid_datetime_def datetime_sub_def timedelta_hours_def
      US_PER_HOUR_def)

lemma timestamp_in_range_replace_tzinfo:
  "timestamp_in_range (replace_tzinfo t tz) = timestamp_in_range t"
  by (simp add: timestamp_in_range_def valid_datetime_def replace_tzinfo_def)


section \<open>The comprehension of the entity as a recursion\<close>

lemma raise_first_enumerate:
  "raise_first
     [GrocyCalendarEvent tz (now i) item key. (i, item) \<leftarrow> enumerate n items, item \<noteq> None]
   = map_non_null tz now key n items"
proof (induction items arbitrary: n)
  case Nil
  show ?case by simp
next
  case (Cons x xs)
  show ?case
  proof (cases x)
    case None
    with Cons show ?thesis by simp
  next
    case (Some y)
    show ?thesis
    proof (cases "GrocyCalendarEvent tz (now n) (Some y) key")
      case (Inl err)
      with Some show ?thesis by simp
    next
      case (Inr ev)
      with Some Cons show ?thesis by simp
    qed
  qed
qed

lemma map_non_null_append:
  "map_non_null tz now key i (pre @ rest) =
     (case map_non_null tz now key i pre of
        Inl err \<Rightarrow> Inl err
      | Inr evs \<Rightarrow>
          (case map_non_null tz now key (i + length pre) rest of
             Inl err \<Rightarrow> Inl err
           | Inr evs' \<Rightarrow> Inr (evs @ evs')))"
proof (induction pre arbitrary: i)
  case Nil
  show ?case by (simp split: sum.split)
next
  case (Cons x xs)
  show ?case
  proof (cases x)
    case None
    with Cons show ?thesis by (simp split: sum.split)
  next
    case (Some y)
    with Cons show ?thesis by (simp split: sum.split)
  qed
qed

lemma async_get_events_eq:
  "async_get_events tz now self start_date end_date =
     eventsInRange tz now (coordinator_data self) (entity_description_key self)"
proof (cases "coordinator_data self (entity_description_key self)")
  case None
  then show ?thesis by (simp add: async_get_events_def eventsInRange_def)
next
  case (Some items)
  show ?thesis
  proof (cases "items = []")
    case True
    with Some show ?thesis by (simp add: async_get_events_def eventsInRange_def)
  next
    case False
    with Some show ?thesis
      by (simp add: async_get_events_def eventsInRange_def raise_first_enumerate
          del: not_None_eq)
  qed
qed


lemma map_non_null_Inr:
  "map_non_null tz now key n items = Inr evs \<Longrightarrow>
     map Inr evs = [GrocyCalendarEvent tz (now i) (Some x) key. (i, Some x) \<leftarrow> enumerate n items]"
proof (induction items arbitrary: n evs)
  case Nil
  then show ?case by simp
next
  case (Cons y ys)
  show ?case
  proof (cases y)
    case None
    with Cons show ?thesis by simp
  next
    case (Some x)
    with Cons.prems obtain ev evs' where
      ev: "GrocyCalendarEvent tz (now n) (Some x) key = Inr ev" and
      evs': "map_non_null tz now key (Suc n) ys = Inr evs'" and
      evs: "evs = ev # evs'"
      by (auto split: sum.splits)
    from Cons.IH [OF evs'] Some ev evs show ?thesis by simp
  qed
qed

section \<open>The branches of the event constructor\<close>

lemma GrocyCalendarEvent_Chore:
  assumes "end_t = (case next_estimated_execution_time c of
                      Some t \<Rightarrow> replace_tzinfo t tz | None \<Rightarrow> now)"
    and "timestamp_in_range end_t"
  shows "GrocyCalendarEvent tz now (Some (Chore c)) key =
           Inr \<lparr>uid = str (chore_id c), summary = chore_name c,
                start = Datetime (end_t\<lparr>micros := micros end_t - US_PER_HOUR\<rparr>),
                end' = Datetime end_t,
                description = or_None (chore_description c),
                location = None, recurrence_id = None, rrule = None\<rparr>"
  using assms(2) unfolding assms(1)
  by (simp add: Let_def datetime_sub_one_hour)

lemma GrocyCalendarEvent_Battery:
  assumes "end_t = (case next_estimated_charge_time b of
                      Some t \<Rightarrow> replace_tzinfo t tz | None \<Rightarrow> now)"
    and "timestamp_in_range end_t"
  shows "GrocyCalendarEvent tz now (Some (Battery b)) key =
           Inr \<lparr>uid = str (battery_id b), summary = battery_name b,
                start = Datetime (end_t\<lparr>micros := micros end_t - US_PER_HOUR\<rparr>),
                end' = Datetime end_t,
                description = or_None (battery_description b),
                location = None, recurrence_id = None, rrule = None\<rparr>"
  using assms(2) unfolding assms(1)
  by (simp add: Let_def datetime_sub_one_hour)

lemma GrocyCalendarEvent_MealPlanItemWrapper:
  assumes "start_d = (case day (meal_plan w) of Some d \<Rightarrow> d | None \<Rightarrow> date_of now)"
    and "date_in_range start_d"
  shows "GrocyCalendarEvent tz now (Some (MealPlanItemWrapper w)) key =
           Inr \<lparr>uid = str (meal_plan_id (meal_plan w)),
                summary = recipe_name (recipe (meal_plan w)),
                start = Date start_d, end' = Date (fromordinal (toordinal start_d + 1)),
                description = or_None (recipe_description (recipe (meal_plan w))),
                location = None, recurrence_id = None, rrule = None\<rparr>"
  using assms(2) unfolding assms(1)
  by (simp add: Let_def date_add_one_day)

lemma GrocyCalendarEvent_Product:
  assumes "start_d = (case best_before_date p of Some d \<Rightarrow> d | None \<Rightarrow> date_of now)"
    and "date_in_range start_d"
  shows "GrocyCalendarEvent tz now (Some (Product p)) key =
           Inr \<lparr>uid = str (product_id p), summary = product_name p,
                start = Date start_d, end' = Date (fromordinal (toordinal start_d + 1)),
                description = None,
                location = None, recurrence_id = None, rrule = None\<rparr>"
  using assms(2) unfolding assms(1)
  by (simp add: Let_def date_add_one_day)

lemma GrocyCalendarEvent_Task:
  assumes "start_d = (case due_date t of Some d \<Rightarrow> d | None \<Rightarrow> date_of now)"
    and "date_in_range start_d"
  shows "GrocyCalendarEvent tz now (Some (Task t)) key =
           Inr \<lparr>uid = str (task_id t), summary = task_name t,
                start = Date start_d, end' = Date (fromordinal (toordinal start_d + 1)),
                description = or_None (task_description t),
                location = None, recurrence_id = None, rrule = None\<rparr>"
  using assms(2) unfolding assms(1)
  by (simp add: Let_def date_add_one_day)

lemma timestamp_in_range_due:
  "timestamp_in_range (case due of None \<Rightarrow> now | Some t \<Rightarrow> t) \<Longrightarrow>
     timestamp_in_range (case due of Some t \<Rightarrow> replace_tzinfo t tz | None \<Rightarrow> now)"
  by (cases due) (simp_all add: timestamp_in_range_replace_tzinfo)

lemma date_in_range_due:
  "date_in_range (case due of None \<Rightarrow> today | Some d \<Rightarrow> d) \<Longrightarrow>
     date_in_range (case due of Some d \<Rightarrow> d | None \<Rightarrow> today)"
  by (cases due) simp_all


lemma unsupported_cases:
  "\<not> supported item \<Longrightarrow> item = None \<or> (\<exists>n. item = Some (Other n))"
  by (cases item rule: supported.cases) simp_all


section \<open>The event mapper\<close>

text \<open>
  Claim C1, as amended. For every item of one of the five supported kinds whose due point
  (or, where it is absent, the clock reading) leaves room for the synthesized window, the
  event constructor produces an event whose end is strictly greater than its start and
  whose uid is the stringified id of the source item (the meal plan's id for a meal-plan
  entry).
\<close>

theorem mapper_end_after_start_and_uid:
  assumes "supported (Some item)" and "window_in_range now item"
  shows "\<exists>ev. GrocyCalendarEvent tz now (Some item) key = Inr ev
           \<and> less_than (start ev) (end' ev) = Some True
           \<and> Some (uid ev) = map_option str (source_id item)"
proof (cases item)
  case (Chore c)
  with assms(2) have "timestamp_in_range
      (case next_estimated_execution_time c of Some t \<Rightarrow> replace_tzinfo t tz | None \<Rightarrow> now)"
    by (simp add: timestamp_in_range_due)
  from GrocyCalendarEvent_Chore [OF refl this] Chore show ?thesis
    by (simp add: US_PER_HOUR_def)
next
  case (Battery b)
  with assms(2) have "timestamp_in_range
      (case next_estimated_charge_time b of Some t \<Rightarrow> replace_tzinfo t tz | None \<Rightarrow> now)"
    by (simp add: timestamp_in_range_due)
  from GrocyCalendarEvent_Battery [OF refl this] Battery show ?thesis
    by (simp add: US_PER_HOUR_def)
next
  case (MealPlanItemWrapper w)
  with assms(2) have "date_in_range
      (case day (meal_plan w) of Some d \<Rightarrow> d | None \<Rightarrow> date_of now)"
    by (simp add: date_in_range_due)
  from GrocyCalendarEvent_MealPlanItemWrapper [OF refl this] MealPlanItemWrapper
  show ?thesis by simp
next
  case (Product p)
  with assms(2) have "date_in_range
      (case best_before_date p of Some d \<Rightarrow> d | None \<Rightarrow> date_of now)"
    by (simp add: date_in_range_due)
  from GrocyCalendarEvent_Product [OF refl this] Product show ?thesis by simp
next
  case (Task t)
  with assms(2) have "date_in_range
      (case due_date t of Some d \<Rightarrow> d | None \<Rightarrow> date_of now)"
    by (simp add: date_in_range_due)
  from GrocyCalendarEvent_Task [OF refl this] Task show ?thesis by simp
next
  case (Other n)
  with assms(1) show ?thesis by simp
qed

theorem mapper_end_after_start_and_uid_witness:
  "supported (Some (Chore example_chore))
   \<and> window_in_range example_now (Chore example_chore)
   \<and> (\<exists>ev. GrocyCalendarEvent ''UTC'' example_now (Some (Chore example_chore)) ''chores'' = Inr ev
          \<and> less_than (start ev) (end' ev) = Some True
          \<and> uid ev = ''12'')"
proof -
  have s: "supported (Some (Chore example_chore))"
    by simp
  have w: "window_in_range example_now (Chore example_chore)"
    by (simp add: example_chore_def timestamp_in_range_def valid_datetime_def MAXORDINAL_def
        US_PER_DAY_def US_PER_HOUR_def)
  have u: "str (chore_id example_chore) = ''12''"
    by (simp add: example_chore_def str_def str_nat.simps digit_char_def)
  from mapper_end_after_start_and_uid [OF s w, of "''UTC''" "''chores''"] s w u
  show ?thesis by simp
qed

text \<open>
  The claim as first stated, for every item, fails at the end of the calendar: a product
  whose best-before date is 9999-12-31 is mapped to no event, since adding one day to that
  date raises \<^verbatim>\<open>OverflowError\<close>.
\<close>

theorem mapper_overflow_counterexample:
  "supported (Some (Product example_product))
   \<and> valid_date (fromordinal 3652059)
   \<and> GrocyCalendarEvent ''UTC'' example_now (Some (Product example_product)) ''expiring_products''
       = Inl OverflowError"
  by (simp add: example_product_def valid_date_def MAXORDINAL_def date_add_def
      timedelta_days_def days_def US_PER_DAY_def)

text \<open>
  Claim C2, as amended. Mapping a chore whose next-execution timestamp \<open>T\<close> is present
  and not earlier than 0001-01-01T01:00:00 gives an event that ends at \<open>T\<close> with the
  default time zone attached and starts one hour before; when the timestamp is absent the
  event ends at \<^verbatim>\<open>now()\<close> and starts one hour before. The same holds for a battery and
  its next-charge timestamp.
\<close>

theorem chore_and_battery_window:
  "(next_estimated_execution_time c = Some T \<and> timestamp_in_range T \<longrightarrow>
      (\<exists>ev. GrocyCalendarEvent tz now (Some (Chore c)) key = Inr ev
          \<and> end' ev = Datetime (T\<lparr>tzinfo := Some tz\<rparr>)
          \<and> start ev = Datetime (T\<lparr>micros := micros T - US_PER_HOUR, tzinfo := Some tz\<rparr>)))
   \<and> (next_estimated_execution_time c = None \<and> timestamp_in_range now \<longrightarrow>
      (\<exists>ev. GrocyCalendarEvent tz now (Some (Chore c)) key = Inr ev
          \<and> end' ev = Datetime now
          \<and> start ev = Datetime (now\<lparr>micros := micros now - US_PER_HOUR\<rparr>)))
   \<and> (next_estimated_charge_time b = Some T \<and> timestamp_in_range T \<longrightarrow>
      (\<exists>ev. GrocyCalendarEvent tz now (Some (Battery b)) key = Inr ev
          \<and> end' ev = Datetime (T\<lparr>tzinfo := Some tz\<rparr>)
          \<and> start ev = Datetime (T\<lparr>micros := micros T - US_PER_HOUR, tzinfo := Some tz\<rparr>)))
   \<and> (next_estimated_charge_time b = None \<and> timestamp_in_range now \<longrightarrow>
      (\<exists>ev. GrocyCalendarEvent tz now (Some (Battery b)) key = Inr ev
          \<and> end' ev = Datetime now
          \<and> start ev = Datetime (now\<lparr>micros := micros now - US_PER_HOUR\<rparr>)))"
proof (intro conjI impI)
  assume a: "next_estimated_execution_time c = Some T \<and> timestamp_in_range T"
  then have "timestamp_in_range
      (case next_estimated_execution_time c of Some t \<Rightarrow> replace_tzinfo t tz | None \<Rightarrow> now)"
    by (simp add: timestamp_in_range_replace_tzinfo)
  from GrocyCalendarEvent_Chore [OF refl this] a
  show "\<exists>ev. GrocyCalendarEvent tz now (Some (Chore c)) key = Inr ev
          \<and> end' ev = Datetime (T\<lparr>tzinfo := Some tz\<rparr>)
          \<and> start ev = Datetime (T\<lparr>micros := micros T - US_PER_HOUR, tzinfo := Some tz\<rparr>)"
    by (simp add: replace_tzinfo_def)
next
  assume a: "next_estimated_execution_time c = None \<and> timestamp_in_range now"
  then have "timestamp_in_range
      (case next_estimated_execution_time c of Some t \<Rightarrow> replace_tzinfo t tz | None \<Rightarrow> now)"
    by simp
  from GrocyCalendarEvent_Chore [OF refl this] a
  show "\<exists>ev. GrocyCalendarEvent tz now (Some (Chore c)) key = Inr ev
          \<and> end' ev = Datetime now
          \<and> start ev = Datetime (now\<lparr>micros := micros now - US_PER_HOUR\<rparr>)"
    by simp
next
  assume a: "next_estimated_charge_time b = Some T \<and> timestamp_in_range T"
  then have "timestamp_in_range
      (case next_estimated_charge_time b of Some t \<Rightarrow> replace_tzinfo t tz | None \<Rightarrow> now)"
    by (simp add: timestamp_in_range_replace_tzinfo)
  from GrocyCalendarEvent_Battery [OF refl this] a
  show "\<exists>ev. GrocyCalendarEvent tz now (Some (Battery b)) key = Inr ev
          \<and> end' ev = Datetime (T\<lparr>tzinfo := Some tz\<rparr>)
          \<and> start ev = Datetime (T\<lparr>micros := micros T - US_PER_HOUR, tzinfo := Some tz\<rparr>)"
    by (simp add: replace_tzinfo_def)
next
  assume a: "next_estimated_charge_time b = None \<and> timestamp_in_range now"
  then have "timestamp_in_range
      (case next_estimated_charge_time b of Some t \<Rightarrow> replace_tzinfo t tz | None \<Rightarrow> now)"
    by simp
  from GrocyCalendarEvent_Battery [OF refl this] a
  show "\<exists>ev. GrocyCalendarEvent tz now (Some (Battery b)) key = Inr ev
          \<and> end' ev = Datetime now
          \<and> start ev = Datetime (now\<lparr>micros := micros now - US_PER_HOUR\<rparr>)"
    by simp
qed

theorem chore_and_battery_window_witness:
  "next_estimated_execution_time example_chore = Some \<lparr>micros = 63800006400000000, tzinfo = None\<rparr>
   \<and> timestamp_in_range \<lparr>micros = 63800006400000000, tzinfo = None\<rparr>
   \<and> (\<exists>ev. GrocyCalendarEvent ''UTC'' example_now (Some (Chore example_chore)) ''chores'' = Inr ev
          \<and> end' ev = Datetime \<lparr>micros = 63800006400000000, tzinfo = Some ''UTC''\<rparr>
          \<and> start ev = Datetime \<lparr>micros = 63800002800000000, tzinfo = Some ''UTC''\<rparr>)
   \<and> next_estimated_charge_time example_battery = None
   \<and> timestamp_in_range example_now
   \<and> (\<exists>ev. GrocyCalendarEvent ''UTC'' example_now (Some (Battery example_battery)) ''batteries'' = Inr ev
          \<and> end' ev = Datetime \<lparr>micros = 63800000000000000, tzinfo = Some ''Europe/Berlin''\<rparr>
          \<and> start ev = Datetime \<lparr>micros = 63799996400000000, tzinfo = Some ''Europe/Berlin''\<rparr>)"
proof -
  have c: "next_estimated_execution_time example_chore
             = Some \<lparr>micros = 63800006400000000, tzinfo = None\<rparr>"
    by (simp add: example_chore_def)
  have t: "timestamp_in_range \<lparr>micros = 63800006400000000, tzinfo = None\<rparr>"
    by (simp add: timestamp_in_range_def valid_datetime_def MAXORDINAL_def US_PER_DAY_def
        US_PER_HOUR_def)
  have b: "next_estimated_charge_time example_battery = None"
    by (simp add: example_battery_def)
  have n: "timestamp_in_range example_now"
    by (simp add: timestamp_in_range_def valid_datetime_def MAXORDINAL_def US_PER_DAY_def
        US_PER_HOUR_def example_now_def)
  from chore_and_battery_window
         [of example_chore "\<lparr>micros = 63800006400000000, tzinfo = None\<rparr>" "''UTC''" example_now
             "''chores''" example_battery]
       chore_and_battery_window
         [of example_chore "\<lparr>micros = 63800006400000000, tzinfo = None\<rparr>" "''UTC''" example_now
             "''batteries''" example_battery]
       c t b n
  show ?thesis by (simp add: US_PER_HOUR_def example_now_def)
qed

text \<open>
  The claim as first stated, for every timestamp, fails in the first hour of the calendar:
  a chore whose next execution is at 0001-01-01T00:00:00 is mapped to no event, since
  subtracting one hour from that time raises \<^verbatim>\<open>OverflowError\<close>.
\<close>

theorem chore_window_counterexample:
  "next_estimated_execution_time example_first_hour_chore = Some \<lparr>micros = 0, tzinfo = None\<rparr>
   \<and> valid_datetime \<lparr>micros = 0, tzinfo = None\<rparr>
   \<and> GrocyCalendarEvent ''UTC'' example_now (Some (Chore example_first_hour_chore)) ''chores''
       = Inl OverflowError"
  by (simp add: example_first_hour_chore_def valid_datetime_def MAXORDINAL_def US_PER_DAY_def
      US_PER_HOUR_def datetime_sub_def timedelta_hours_def replace_tzinfo_def)

text \<open>
  Claim C3, as amended. For a date-only item (meal-plan entry, product, task) whose date
  field is absent, the start of the event defaults to today and its end is exactly one day
  after the start: \<open>start = today\<close> and \<open>end = today + 1 day\<close>, where today is a date
  before 9999-12-31.
\<close>

theorem date_only_absent_defaults:
  assumes "date_in_range (date_of now)"
  shows "(day (meal_plan w) = None \<longrightarrow>
            (\<exists>ev. GrocyCalendarEvent tz now (Some (MealPlanItemWrapper w)) key = Inr ev
                \<and> start ev = Date (date_of now)
                \<and> end' ev = Date (fromordinal (toordinal (date_of now) + 1))))
       \<and> (best_before_date p = None \<longrightarrow>
            (\<exists>ev. GrocyCalendarEvent tz now (Some (Product p)) key = Inr ev
                \<and> start ev = Date (date_of now)
                \<and> end' ev = Date (fromordinal (toordinal (date_of now) + 1))))
       \<and> (due_date t = None \<longrightarrow>
            (\<exists>ev. GrocyCalendarEvent tz now (Some (Task t)) key = Inr ev
                \<and> start ev = Date (date_of now)
                \<and> end' ev = Date (fromordinal (toordinal (date_of now) + 1))))"
proof (intro conjI impI)
  assume a: "day (meal_plan w) = None"
  with assms have "date_in_range (case day (meal_plan w) of Some d \<Rightarrow> d | None \<Rightarrow> date_of now)"
    by simp
  from GrocyCalendarEvent_MealPlanItemWrapper [OF refl this] a
  show "\<exists>ev. GrocyCalendarEvent tz now (Some (MealPlanItemWrapper w)) key = Inr ev
          \<and> start ev = Date (date_of now)
          \<and> end' ev = Date (fromordinal (toordinal (date_of now) + 1))"
    by simp
next
  assume a: "best_before_date p = None"
  with assms have "date_in_range (case best_before_date p of Some d \<Rightarrow> d | None \<Rightarrow> date_of now)"
    by simp
  from GrocyCalendarEvent_Product [OF refl this] a
  show "\<exists>ev. GrocyCalendarEvent tz now (Some (Product p)) key = Inr ev
          \<and> start ev = Date (date_of now)
          \<and> end' ev = Date (fromordinal (toordinal (date_of now) + 1))"
    by simp
next
  assume a: "due_date t = None"
  with assms have "date_in_range (case due_date t of Some d \<Rightarrow> d | None \<Rightarrow> date_of now)"
    by simp
  from GrocyCalendarEvent_Task [OF refl this] a
  show "\<exists>ev. GrocyCalendarEvent tz now (Some (Task t)) key = Inr ev
          \<and> start ev = Date (date_of now)
          \<and> end' ev = Date (fromordinal (toordinal (date_of now) + 1))"
    by simp
qed

theorem date_only_absent_defaults_witness:
  "date_in_range (date_of example_now)
   \<and> due_date example_task = None
   \<and> (\<exists>ev. GrocyCalendarEvent ''UTC'' example_now (Some (Task example_task)) ''tasks'' = Inr ev
          \<and> start ev = Date (fromordinal 738426)
          \<and> end' ev = Date (fromordinal 738427))"
proof -
  have r: "date_in_range (date_of example_now)"
    by (simp add: date_in_range_def valid_date_def MAXORDINAL_def date_of_def US_PER_DAY_def
        example_now_def)
  have d: "due_date example_task = None"
    by (simp add: example_task_def)
  have n: "date_of example_now = fromordinal 738426"
    by (simp add: date_of_def US_PER_DAY_def example_now_def)
  from date_only_absent_defaults [OF r, of _ _ _ _ example_task] r d n
  show ?thesis by simp
qed

text \<open>
  The claim as first stated puts the end at today and the start one day before it. On a
  task without a due date, mapped on day 738426, the event ends on day 738427, which is
  not today, and starts on day 738426, which is not the day before.
\<close>

theorem date_only_default_counterexample:
  "due_date example_task = None
   \<and> date_of example_now = fromordinal 738426
   \<and> GrocyCalendarEvent ''UTC'' example_now (Some (Task example_task)) ''tasks'' =
       Inr \<lparr>uid = ''3'', summary = ''Groceries'',
            start = Date (fromordinal 738426), end' = Date (fromordinal 738427),
            description = Some ''buy milk'',
            location = None, recurrence_id = None, rrule = None\<rparr>
   \<and> Date (fromordinal 738427) \<noteq> Date (date_of example_now)
   \<and> Date (fromordinal 738426) \<noteq> Date (fromordinal (toordinal (date_of example_now) - 1))"
  by (simp add: example_task_def example_now_def date_of_def US_PER_DAY_def date_add_def
      timedelta_days_def days_def MAXORDINAL_def str_def str_nat.simps digit_char_def
      or_None_def)

text \<open>
  Claim C5, as amended. Mapping a meal-plan entry with a plan day \<open>D\<close> before 9999-12-31
  gives an event that starts on \<open>D\<close> and ends on \<open>D\<close> plus one day, whose title is the
  recipe's name and whose description is the recipe's description, or none when that is
  empty or absent.
\<close>

theorem meal_plan_entry_mapping:
  assumes "day (meal_plan w) = Some D" and "date_in_range D"
  shows "GrocyCalendarEvent tz now (Some (MealPlanItemWrapper w)) key =
           Inr \<lparr>uid = str (meal_plan_id (meal_plan w)),
                summary = recipe_name (recipe (meal_plan w)),
                start = Date D, end' = Date (fromordinal (toordinal D + 1)),
                description =
                  (if recipe_description (recipe (meal_plan w)) = None
                      \<or> recipe_description (recipe (meal_plan w)) = Some []
                   then None else recipe_description (recipe (meal_plan w))),
                location = None, recurrence_id = None, rrule = None\<rparr>"
proof -
  from assms have "date_in_range (case day (meal_plan w) of Some d \<Rightarrow> d | None \<Rightarrow> date_of now)"
    by simp
  from GrocyCalendarEvent_MealPlanItemWrapper [OF refl this] assms(1)
  show ?thesis by (simp add: or_None_def split: option.split)
qed

theorem meal_plan_entry_mapping_witness:
  "day (meal_plan example_meal) = Some (fromordinal 738427)
   \<and> date_in_range (fromordinal 738427)
   \<and> GrocyCalendarEvent ''UTC'' example_now (Some (MealPlanItemWrapper example_meal)) ''meal_plan'' =
       Inr \<lparr>uid = ''5'', summary = ''Soup'',
            start = Date (fromordinal 738427), end' = Date (fromordinal 738428),
            description = None,
            location = None, recurrence_id = None, rrule = None\<rparr>"
proof -
  have d: "day (meal_plan example_meal) = Some (fromordinal 738427)"
    by (simp add: example_meal_def)
  have r: "date_in_range (fromordinal 738427)"
    by (simp add: date_in_range_def valid_date_def MAXORDINAL_def)
  have u: "str (meal_plan_id (meal_plan example_meal)) = ''5''"
    by (simp add: example_meal_def str_def str_nat.simps digit_char_def)
  from meal_plan_entry_mapping [OF d r, of "''UTC''" example_now "''meal_plan''"] d r u
  show ?thesis by (simp add: example_meal_def)
qed

text \<open>
  The claim as first stated, for every plan day, fails on the last day of the calendar: an
  entry planned for 9999-12-31 is mapped to no event, since adding one day to that date
  raises \<^verbatim>\<open>OverflowError\<close>.
\<close>

theorem meal_plan_entry_counterexample:
  "day (meal_plan example_last_day_meal) = Some (fromordinal 3652059)
   \<and> valid_date (fromordinal 3652059)
   \<and> GrocyCalendarEvent ''UTC'' example_now (Some (MealPlanItemWrapper example_last_day_meal))
         ''meal_plan''
       = Inl OverflowError"
  by (simp add: example_last_day_meal_def valid_date_def MAXORDINAL_def date_add_def
      timedelta_days_def days_def US_PER_DAY_def)

text \<open>
  Claim C6, as amended. Mapping a product with no best-before date on a day before
  9999-12-31 gives an event that starts today and ends today plus one day, and the
  description of the event mapped from any product is none: the constructor passes
  \<^verbatim>\<open>description=None\<close> and reads no other attribute of the product than its id, name
  and best-before date.
\<close>

theorem product_mapping:
  "(best_before_date p = None \<and> date_in_range (date_of now) \<longrightarrow>
      (\<exists>ev. GrocyCalendarEvent tz now (Some (Product p)) key = Inr ev
          \<and> start ev = Date (date_of now)
          \<and> end' ev = Date (fromordinal (toordinal (date_of now) + 1))
          \<and> description ev = None))
   \<and> (\<forall>ev. GrocyCalendarEvent tz now (Some (Product p)) key = Inr ev \<longrightarrow> description ev = None)"
proof (intro conjI impI allI)
  assume a: "best_before_date p = None \<and> date_in_range (date_of now)"
  then have "date_in_range (case best_before_date p of Some d \<Rightarrow> d | None \<Rightarrow> date_of now)"
    by simp
  from GrocyCalendarEvent_Product [OF refl this] a
  show "\<exists>ev. GrocyCalendarEvent tz now (Some (Product p)) key = Inr ev
          \<and> start ev = Date (date_of now)
          \<and> end' ev = Date (fromordinal (toordinal (date_of now) + 1))
          \<and> description ev = None"
    by simp
next
  fix ev
  assume "GrocyCalendarEvent tz now (Some (Product p)) key = Inr ev"
  then show "description ev = None"
    by (auto simp: Let_def split: sum.splits)
qed

theorem product_mapping_witness:
  "best_before_date example_undated_product = None
   \<and> date_in_range (date_of example_now)
   \<and> (\<exists>ev. GrocyCalendarEvent ''UTC'' example_now (Some (Product example_undated_product))
             ''expiring_products'' = Inr ev
          \<and> start ev = Date (fromordinal 738426)
          \<and> end' ev = Date (fromordinal 738427)
          \<and> description ev = None)"
proof -
  have b: "best_before_date example_undated_product = None"
    by (simp add: example_undated_product_def)
  have r: "date_in_range (date_of example_now)"
    by (simp add: date_in_range_def valid_date_def MAXORDINAL_def date_of_def US_PER_DAY_def
        example_now_def)
  have n: "date_of example_now = fromordinal 738426"
    by (simp add: date_of_def US_PER_DAY_def example_now_def)
  from product_mapping [of example_undated_product example_now "''UTC''" "''expiring_products''"]
       b r n
  show ?thesis by simp
qed

text \<open>
  The claim as first stated, for every day, fails on the last day of the calendar: a
  product with no best-before date that is mapped at noon of 9999-12-31 gives no event,
  since today plus one day raises \<^verbatim>\<open>OverflowError\<close>.
\<close>

theorem product_mapping_counterexample:
  "best_before_date example_undated_product = None
   \<and> valid_datetime example_last_day_now
   \<and> date_of example_last_day_now = fromordinal 3652059
   \<and> GrocyCalendarEvent ''UTC'' example_last_day_now (Some (Product example_undated_product))
         ''expiring_products''
       = Inl OverflowError"
  by (simp add: example_undated_product_def example_last_day_now_def valid_datetime_def
      date_of_def MAXORDINAL_def US_PER_DAY_def date_add_def timedelta_days_def days_def)

text \<open>
  Claim C7. For an item whose runtime type is none of the five supported kinds the event
  constructor fails with \<^verbatim>\<open>NotImplementedError\<close>, and the message holds the category
  key and the item's runtime type. The error is not caught in the module: when the cached
  list of the entity holds such an item (other than \<^verbatim>\<open>None\<close>, which the entity skips),
  \<^verbatim>\<open>async_get_events\<close> ends with an error, that of an earlier item or this one, and
  returns no list.
\<close>

theorem unsupported_item_raises:
  assumes "\<not> supported item"
  shows "GrocyCalendarEvent tz t item key =
           Inl (NotImplementedError (key @ '' => '' @ str_type item))
       \<and> (coordinator_data self (entity_description_key self) = Some (pre @ item # post)
            \<and> item \<noteq> None \<longrightarrow>
          async_get_events tz now self start_date end_date =
            (case map_non_null tz now (entity_description_key self) 0 pre of
               Inl err \<Rightarrow> Inl err
             | Inr evs \<Rightarrow>
                 Inl (NotImplementedError (entity_description_key self @ '' => '' @ str_type item))))"
proof (intro conjI impI)
  from unsupported_cases [OF assms]
  show "GrocyCalendarEvent tz t item key =
          Inl (NotImplementedError (key @ '' => '' @ str_type item))"
    by auto
next
  assume a: "coordinator_data self (entity_description_key self) = Some (pre @ item # post)
               \<and> item \<noteq> None"
  with unsupported_cases [OF assms] obtain n where n: "item = Some (Other n)"
    by auto
  have "map_non_null tz now (entity_description_key self) (0 + length pre) (item # post) =
          Inl (NotImplementedError (entity_description_key self @ '' => '' @ str_type item))"
    unfolding n by simp
  with a show "async_get_events tz now self start_date end_date =
            (case map_non_null tz now (entity_description_key self) 0 pre of
               Inl err \<Rightarrow> Inl err
             | Inr evs \<Rightarrow>
                 Inl (NotImplementedError (entity_description_key self @ '' => '' @ str_type item)))"
    by (simp add: async_get_events_eq eventsInRange_def map_non_null_append split: sum.split)
qed

theorem unsupported_item_raises_witness:
  "\<not> supported (Some (Other ''int''))
   \<and> GrocyCalendarEvent ''UTC'' example_now (Some (Other ''int'')) ''tasks'' =
       Inl (NotImplementedError (''tasks => <class '' @ [CHR 0x27] @ ''int'' @ [CHR 0x27] @ ''>''))
   \<and> async_get_events ''UTC'' (\<lambda>i. example_now) example_tasks_entity example_now example_now =
       Inl (NotImplementedError (''tasks => <class '' @ [CHR 0x27] @ ''int'' @ [CHR 0x27] @ ''>''))"
proof -
  have u: "\<not> supported (Some (Other ''int''))"
    by simp
  have c: "coordinator_data example_tasks_entity (entity_description_key example_tasks_entity) =
             Some ([None, Some (Task example_task)] @ Some (Other ''int'') # [])"
    by (simp add: example_tasks_entity_def example_cache_def)
  have k: "entity_description_key example_tasks_entity = ''tasks''"
    by (simp add: example_tasks_entity_def)
  have p: "map_non_null ''UTC'' (\<lambda>i. example_now) ''tasks'' 0 [None, Some (Task example_task)] =
             Inr [\<lparr>uid = ''3'', summary = ''Groceries'',
                   start = Date (fromordinal 738426), end' = Date (fromordinal 738427),
                   description = Some ''buy milk'',
                   location = None, recurrence_id = None, rrule = None\<rparr>]"
    by (simp add: example_task_def example_now_def date_of_def US_PER_DAY_def date_add_def
        timedelta_days_def days_def MAXORDINAL_def str_def str_nat.simps digit_char_def
        or_None_def)
  from unsupported_item_raises
         [OF u, of "''UTC''" example_now "''tasks''" example_tasks_entity
            "[None, Some (Task example_task)]" "[]" "\<lambda>i. example_now" example_now example_now]
       u c k p
  show ?thesis by (simp add: str_type_def)
qed

text \<open>
  Claim C10. The event constructor called with \<^verbatim>\<open>None\<close> as item falls through every
  branch and raises \<^verbatim>\<open>NotImplementedError\<close>; so does the call with no arguments, where
  the item defaults to \<^verbatim>\<open>None\<close> and the key to the empty string. A null item never
  gives an event.
\<close>

theorem null_item_raises:
  "GrocyCalendarEvent tz now None key =
     Inl (NotImplementedError (key @ '' => <class '' @ [CHR 0x27] @ ''NoneType'' @ [CHR 0x27] @ ''>''))
   \<and> GrocyCalendarEvent tz now None [] =
       Inl (NotImplementedError ('' => <class '' @ [CHR 0x27] @ ''NoneType'' @ [CHR 0x27] @ ''>''))
   \<and> (\<forall>ev. GrocyCalendarEvent tz now None key \<noteq> Inr ev)"
  by (simp add: str_type_def)


section \<open>The entity's operations\<close>

text \<open>
  Claim C4. When the cache holds nothing for the entity's category key,
  \<^verbatim>\<open>async_get_events\<close> returns the empty list: not \<^verbatim>\<open>None\<close>, and no error.
\<close>

theorem absent_category_gives_empty_list:
  assumes "coordinator_data self (entity_description_key self) = None"
  shows "async_get_events tz now self start_date end_date = Inr (Some [])"
  using assms by (simp add: async_get_events_def)

theorem absent_category_gives_empty_list_witness:
  "coordinator_data example_entity (entity_description_key example_entity) = None
   \<and> async_get_events ''UTC'' (\<lambda>i. example_now) example_entity example_now example_now
       = Inr (Some [])"
proof -
  have a: "coordinator_data example_entity (entity_description_key example_entity) = None"
    by (simp add: example_entity_def example_cache_def)
  from absent_category_gives_empty_list [OF a] a show ?thesis by simp
qed

text \<open>
  Claim C8. For every state of the cache, \<^verbatim>\<open>async_get_events\<close> computes what
  \<open>eventsInRange\<close> describes: every non-null item of the cached list mapped through the
  event constructor, in the order of the list. When it returns events, they are the
  constructor's results on the non-null items, in that order. The requested window has no
  effect: two calls that differ only in \<^verbatim>\<open>start_date\<close> and \<^verbatim>\<open>end_date\<close> give the same
  result.
\<close>

theorem events_in_range_maps_in_order:
  "async_get_events tz now self start_date end_date =
     eventsInRange tz now (coordinator_data self) (entity_description_key self)
   \<and> (coordinator_data self (entity_description_key self) = Some items
        \<and> async_get_events tz now self start_date end_date = Inr (Some evs) \<longrightarrow>
      map Inr evs =
        [GrocyCalendarEvent tz (now i) (Some x) (entity_description_key self).
           (i, Some x) \<leftarrow> enumerate 0 items])
   \<and> async_get_events tz now self start_date end_date =
       async_get_events tz now self start_date' end_date'"
proof (intro conjI impI)
  show "async_get_events tz now self start_date end_date =
          eventsInRange tz now (coordinator_data self) (entity_description_key self)"
    by (rule async_get_events_eq)
next
  assume a: "coordinator_data self (entity_description_key self) = Some items
               \<and> async_get_events tz now self start_date end_date = Inr (Some evs)"
  then have "map_non_null tz now (entity_description_key self) 0 items = Inr evs"
    by (cases "map_non_null tz now (entity_description_key self) 0 items")
       (auto simp: async_get_events_eq eventsInRange_def)
  then show "map Inr evs =
        [GrocyCalendarEvent tz (now i) (Some x) (entity_description_key self).
           (i, Some x) \<leftarrow> enumerate 0 items]"
    by (rule map_non_null_Inr)
next
  show "async_get_events tz now self start_date end_date =
          async_get_events tz now self start_date' end_date'"
    by (simp add: async_get_events_def)
qed

theorem events_in_range_maps_in_order_witness:
  "coordinator_data example_products_entity (entity_description_key example_products_entity) =
     Some [Some (Product example_undated_product)]
   \<and> async_get_events ''UTC'' (\<lambda>i. example_now) example_products_entity example_now example_now =
       Inr (Some [\<lparr>uid = ''8'', summary = ''Rice'',
                   start = Date (fromordinal 738426), end' = Date (fromordinal 738427),
                   description = None,
                   location = None, recurrence_id = None, rrule = None\<rparr>])
   \<and> map Inr [\<lparr>uid = ''8'', summary = ''Rice'',
                start = Date (fromordinal 738426), end' = Date (fromordinal 738427),
                description = None,
                location = None, recurrence_id = None, rrule = None\<rparr>] =
       [GrocyCalendarEvent ''UTC'' example_now (Some (Product example_undated_product))
          ''expiring_products'']"
proof -
  have c: "coordinator_data example_products_entity
             (entity_description_key example_products_entity) =
           Some [Some (Product example_undated_product)]"
    by (simp add: example_products_entity_def example_cache_def)
  have k: "entity_description_key example_products_entity = ''expiring_products''"
    by (simp add: example_products_entity_def)
  have m: "GrocyCalendarEvent ''UTC'' example_now (Some (Product example_undated_product))
             ''expiring_products'' =
           Inr \<lparr>uid = ''8'', summary = ''Rice'',
                start = Date (fromordinal 738426), end' = Date (fromordinal 738427),
                description = None,
                location = None, recurrence_id = None, rrule = None\<rparr>"
    by (simp add: example_undated_product_def example_now_def date_of_def US_PER_DAY_def
        date_add_def timedelta_days_def days_def MAXORDINAL_def str_def str_nat.simps
        digit_char_def)
  have r: "async_get_events ''UTC'' (\<lambda>i. example_now) example_products_entity example_now
             example_now =
           Inr (Some [\<lparr>uid = ''8'', summary = ''Rice'',
                start = Date (fromordinal 738426), end' = Date (fromordinal 738427),
                description = None,
                location = None, recurrence_id = None, rrule = None\<rparr>])"
    using c m by (simp add: async_get_events_def k)
  from events_in_range_maps_in_order
         [where tz = "''UTC''" and now = "\<lambda>i. example_now" and self = example_products_entity
            and start_date = example_now and end_date = example_now
            and items = "[Some (Product example_undated_product)]"
            and evs = "[\<lparr>uid = ''8'', summary = ''Rice'',
                start = Date (fromordinal 738426), end' = Date (fromordinal 738427),
                description = None,
                location = None, recurrence_id = None, rrule = None\<rparr>]"]
       c k r
  show ?thesis by simp
qed

text \<open>
  Claim C9. The property \<^verbatim>\<open>event\<close> is \<^verbatim>\<open>None\<close> for every entity, whatever its cache
  holds.
\<close>

theorem current_event_is_none:
  "event self = None"
  by (simp add: event_def)

end
